theory Spec2Isabelle
  imports Complex_Main
begin

section \<open>The movement controller of the first-person scene\<close>

text \<open>
  The development embeds the per-frame callback of \<^verbatim>\<open>PlayerRig\<close>
  (\<^verbatim>\<open>src/components/fps/FPSScene.tsx\<close>, the function passed to \<^verbatim>\<open>useFrame\<close>) together
  with the metrics store of \<^verbatim>\<open>src/stores/player.ts\<close>.

  JavaScript numbers are modelled as real numbers: rounding, infinities and NaN are outside
  the model. The mutable references of the component (\<^verbatim>\<open>useRef\<close>) are the fields of one
  record that each frame takes and returns.
\<close>

subsection \<open>Vectors and quaternions\<close>

text \<open>The operations of \<^verbatim>\<open>Vector3\<close> and \<^verbatim>\<open>MathUtils\<close> that the callback calls, as the
  rendering library defines them.\<close>

record vector3 =
  vec_x :: real
  vec_y :: real
  vec_z :: real

record quaternion =
  quat_x :: real
  quat_y :: real
  quat_z :: real
  quat_w :: real

definition lengthSq :: "vector3 \<Rightarrow> real" where
  "lengthSq v = vec_x v * vec_x v + vec_y v * vec_y v + vec_z v * vec_z v"

definition length_v3 :: "vector3 \<Rightarrow> real" where
  "length_v3 v = sqrt (lengthSq v)"

definition multiplyScalar :: "vector3 \<Rightarrow> real \<Rightarrow> vector3" where
  "multiplyScalar v s = \<lparr>vec_x = vec_x v * s, vec_y = vec_y v * s, vec_z = vec_z v * s\<rparr>"

definition divideScalar :: "vector3 \<Rightarrow> real \<Rightarrow> vector3" where
  "divideScalar v s = multiplyScalar v (1 / s)"

text \<open>\<^verbatim>\<open>normalize()\<close> is \<^verbatim>\<open>divideScalar(this.length() || 1)\<close>: a vector of length zero is
  divided by one and stays zero.\<close>

definition normalize_v3 :: "vector3 \<Rightarrow> vector3" where
  "normalize_v3 v = divideScalar v (if length_v3 v = 0 then 1 else length_v3 v)"

definition setY :: "vector3 \<Rightarrow> real \<Rightarrow> vector3" where
  "setY v s = v\<lparr>vec_y := s\<rparr>"

definition add_v3 :: "vector3 \<Rightarrow> vector3 \<Rightarrow> vector3" where
  "add_v3 a b = \<lparr>vec_x = vec_x a + vec_x b, vec_y = vec_y a + vec_y b, vec_z = vec_z a + vec_z b\<rparr>"

definition sub_v3 :: "vector3 \<Rightarrow> vector3 \<Rightarrow> vector3" where
  "sub_v3 a b = \<lparr>vec_x = vec_x a - vec_x b, vec_y = vec_y a - vec_y b, vec_z = vec_z a - vec_z b\<rparr>"

definition cross :: "vector3 \<Rightarrow> vector3 \<Rightarrow> vector3" where
  "cross a b =
     \<lparr>vec_x = vec_y a * vec_z b - vec_z a * vec_y b,
      vec_y = vec_z a * vec_x b - vec_x a * vec_z b,
      vec_z = vec_x a * vec_y b - vec_y a * vec_x b\<rparr>"

definition applyQuaternion :: "vector3 \<Rightarrow> quaternion \<Rightarrow> vector3" where
  "applyQuaternion v q =
     (let tx = 2 * (quat_y q * vec_z v - quat_z q * vec_y v);
          ty = 2 * (quat_z q * vec_x v - quat_x q * vec_z v);
          tz = 2 * (quat_x q * vec_y v - quat_y q * vec_x v)
      in \<lparr>vec_x = vec_x v + quat_w q * tx + quat_y q * tz - quat_z q * ty,
          vec_y = vec_y v + quat_w q * ty + quat_z q * tx - quat_x q * tz,
          vec_z = vec_z v + quat_w q * tz + quat_x q * ty - quat_y q * tx\<rparr>)"

definition lerp :: "real \<Rightarrow> real \<Rightarrow> real \<Rightarrow> real" where
  "lerp a b t = (1 - t) * a + t * b"

definition damp :: "real \<Rightarrow> real \<Rightarrow> real \<Rightarrow> real \<Rightarrow> real" where
  "damp a b lambda dt = lerp a b (1 - exp (- lambda * dt))"

subsection \<open>Terrain\<close>

text \<open>
  The module \<^verbatim>\<open>@/lib/terrain\<close> is imported by the scene but is not among the sources.
  Its height function and the constant \<^verbatim>\<open>ARENA_HALF_SIZE\<close> are parameters of every
  definition below that uses them.
\<close>

text \<open>Modelled from the spec: \<^verbatim>\<open>clampToArena\<close> of \<^verbatim>\<open>@/lib/terrain\<close> is missing; the
  interface section describes it as the standard clamp of a value between a minimum and a
  maximum.\<close>

definition clampToArena :: "real \<Rightarrow> real \<Rightarrow> real \<Rightarrow> real" where
  "clampToArena v lo hi = min (max v lo) hi"

definition flatTerrain :: "real \<Rightarrow> real \<Rightarrow> real" where
  "flatTerrain a b = 0"

subsection \<open>Input, controls, store and component state\<close>

record keys =
  forward :: bool
  backward :: bool
  left :: bool
  right :: bool
  run :: bool
  jump :: bool
  crouch :: bool

text \<open>The pointer-lock controls object, as far as the scene can observe it: whether the
  pointer is locked. Its camera is the scene's default camera, the same object as
  \<^verbatim>\<open>camera\<close> of the component.\<close>

record pointerLockControls =
  isLocked :: bool

text \<open>The store of \<^verbatim>\<open>stores/player.ts\<close>.\<close>

record playerState =
  speed :: real
  altitude :: real
  hud_stamina :: real
  locked :: bool

definition setMetrics :: "real \<Rightarrow> real \<Rightarrow> real \<Rightarrow> playerState \<Rightarrow> playerState" where
  "setMetrics sp al st s = s\<lparr>speed := sp, altitude := al, hud_stamina := st\<rparr>"

definition setLocked :: "bool \<Rightarrow> playerState \<Rightarrow> playerState" where
  "setLocked l s = s\<lparr>locked := l\<rparr>"

definition initialStore :: playerState where
  "initialStore = \<lparr>speed = 0, altitude = 0, hud_stamina = 100, locked = False\<rparr>"

text \<open>The references of \<^verbatim>\<open>PlayerRig\<close>, the position of the camera and the store.\<close>

record rig =
  velocity :: vector3
  position :: vector3
  stamina :: real
  isGrounded :: bool
  cooldown :: real
  heading :: quaternion
  camera_position :: vector3
  store :: playerState

definition initialRig :: rig where
  "initialRig =
     \<lparr>velocity = \<lparr>vec_x = 0, vec_y = 0, vec_z = 0\<rparr>,
      position = \<lparr>vec_x = 0, vec_y = 0, vec_z = 20\<rparr>,
      stamina = 100,
      isGrounded = False,
      cooldown = 0,
      heading = \<lparr>quat_x = 0, quat_y = 0, quat_z = 0, quat_w = 1\<rparr>,
      camera_position = \<lparr>vec_x = 0, vec_y = 8, vec_z = 18\<rparr>,
      store = initialStore\<rparr>"

definition playerHeight :: real where "playerHeight = 1.72"
definition crouchHeight :: real where "crouchHeight = 1.05"
definition walkSpeed :: real where "walkSpeed = 9.5"
definition gravity :: real where "gravity = 32"

definition upVector :: vector3 where
  "upVector = \<lparr>vec_x = 0, vec_y = 1, vec_z = 0\<rparr>"

subsection \<open>The stages of one frame\<close>

text \<open>Line 136: the time step is the elapsed time, at most 0.05 seconds.\<close>

definition clampDelta :: "real \<Rightarrow> real" where
  "clampDelta delta = min delta 0.05"

text \<open>Lines 142 to 145: a position of squared length zero is replaced by the spawn point.\<close>

definition resolveSpawn :: "(real \<Rightarrow> real \<Rightarrow> real) \<Rightarrow> rig \<Rightarrow> rig" where
  "resolveSpawn terrainHeight w =
     (if lengthSq (position w) = 0
      then w\<lparr>position := \<lparr>vec_x = 0, vec_y = terrainHeight 0 25 + playerHeight, vec_z = 25\<rparr>\<rparr>
      else w)"

text \<open>Lines 149 to 151.\<close>

definition frontVector :: "quaternion \<Rightarrow> vector3" where
  "frontVector q =
     normalize_v3 (setY (applyQuaternion \<lparr>vec_x = 0, vec_y = 0, vec_z = - 1\<rparr> q) 0)"

definition sideVector :: "quaternion \<Rightarrow> vector3" where
  "sideVector q = normalize_v3 (cross upVector (frontVector q))"

text \<open>Lines 153 to 157: the sum of the pressed directions, before it is normalised.\<close>

definition moveSum :: "keys \<Rightarrow> quaternion \<Rightarrow> vector3" where
  "moveSum k q =
     (let m0 = \<lparr>vec_x = 0, vec_y = 0, vec_z = 0\<rparr>;
          m1 = (if forward k then add_v3 m0 (frontVector q) else m0);
          m2 = (if backward k then sub_v3 m1 (frontVector q) else m1);
          m3 = (if left k then sub_v3 m2 (sideVector q) else m2);
          m4 = (if right k then add_v3 m3 (sideVector q) else m3)
      in m4)"

text \<open>Lines 159 to 162.\<close>

definition isMoving :: "keys \<Rightarrow> quaternion \<Rightarrow> bool" where
  "isMoving k q = (lengthSq (moveSum k q) > 0.001)"

definition moveVector :: "keys \<Rightarrow> quaternion \<Rightarrow> vector3" where
  "moveVector k q = (if isMoving k q then normalize_v3 (moveSum k q) else moveSum k q)"

text \<open>Lines 164 to 167; \<^verbatim>\<open>canSprint\<close> reads the stamina of the start of the frame.\<close>

definition crouchFactor :: "keys \<Rightarrow> real" where
  "crouchFactor k = (if crouch k then 0.45 else 1)"

definition canSprint :: "keys \<Rightarrow> real \<Rightarrow> bool" where
  "canSprint k st = (run k \<and> st > 5 \<and> \<not> crouch k)"

definition sprintFactor :: "keys \<Rightarrow> real \<Rightarrow> real" where
  "sprintFactor k st = (if canSprint k st then 1.75 else 1)"

definition targetSpeed :: "keys \<Rightarrow> real \<Rightarrow> real" where
  "targetSpeed k st = walkSpeed * crouchFactor k * sprintFactor k st"

text \<open>Lines 169 to 177.\<close>

definition dampVelocity :: "real \<Rightarrow> keys \<Rightarrow> quaternion \<Rightarrow> real \<Rightarrow> rig \<Rightarrow> rig" where
  "dampVelocity dt k q ts w =
     (if isMoving k q
      then
        (let desiredX = vec_x (moveVector k q) * ts;
             desiredZ = vec_z (moveVector k q) * ts
         in w\<lparr>velocity := (velocity w)
               \<lparr>vec_x := damp (vec_x (velocity w)) desiredX 8 dt,
                vec_z := damp (vec_z (velocity w)) desiredZ 8 dt\<rparr>\<rparr>)
      else
        w\<lparr>velocity := (velocity w)
            \<lparr>vec_x := damp (vec_x (velocity w)) 0 5.5 dt,
             vec_z := damp (vec_z (velocity w)) 0 5.5 dt\<rparr>\<rparr>)"

text \<open>Lines 179 to 183; the first argument is \<^verbatim>\<open>canSprint && isMoving\<close>.\<close>

definition updateStamina :: "bool \<Rightarrow> real \<Rightarrow> rig \<Rightarrow> rig" where
  "updateStamina draining dt w =
     (if draining
      then w\<lparr>stamina := max 0 (stamina w - 32 * dt)\<rparr>
      else w\<lparr>stamina := min 100 (stamina w + 20 * dt)\<rparr>)"

text \<open>Lines 185 to 187.\<close>

definition tickCooldown :: "real \<Rightarrow> rig \<Rightarrow> rig" where
  "tickCooldown dt w = (if cooldown w > 0 then w\<lparr>cooldown := cooldown w - dt\<rparr> else w)"

text \<open>Lines 189 to 193: the condition of the jump branch, read after the cooldown has been
  decremented, and the branch itself.\<close>

definition jumpFires :: "keys \<Rightarrow> rig \<Rightarrow> bool" where
  "jumpFires k w = (jump k \<and> isGrounded w \<and> cooldown w \<le> 0)"

definition tryJump :: "keys \<Rightarrow> rig \<Rightarrow> rig" where
  "tryJump k w =
     (if jumpFires k w
      then w\<lparr>velocity := (velocity w)\<lparr>vec_y := 12.5\<rparr>, isGrounded := False, cooldown := 0.35\<rparr>
      else w)"

text \<open>Line 195.\<close>

definition applyGravity :: "real \<Rightarrow> rig \<Rightarrow> rig" where
  "applyGravity dt w =
     w\<lparr>velocity := (velocity w)\<lparr>vec_y := vec_y (velocity w) - gravity * dt\<rparr>\<rparr>"

text \<open>Lines 197 to 199.\<close>

definition integrate :: "real \<Rightarrow> rig \<Rightarrow> rig" where
  "integrate dt w =
     w\<lparr>position :=
         \<lparr>vec_x = vec_x (position w) + vec_x (velocity w) * dt,
          vec_y = vec_y (position w) + vec_y (velocity w) * dt,
          vec_z = vec_z (position w) + vec_z (velocity w) * dt\<rparr>\<rparr>"

text \<open>Lines 201 and 202.\<close>

definition clampPosition :: "real \<Rightarrow> rig \<Rightarrow> rig" where
  "clampPosition ARENA_HALF_SIZE w =
     w\<lparr>position := (position w)
         \<lparr>vec_x := clampToArena (vec_x (position w)) (- ARENA_HALF_SIZE + 3) (ARENA_HALF_SIZE - 3),
          vec_z := clampToArena (vec_z (position w)) (- ARENA_HALF_SIZE + 3) (ARENA_HALF_SIZE - 3)\<rparr>\<rparr>"

text \<open>Lines 204 to 207.\<close>

definition desiredHeight :: "(real \<Rightarrow> real \<Rightarrow> real) \<Rightarrow> keys \<Rightarrow> rig \<Rightarrow> real" where
  "desiredHeight terrainHeight k w =
     (let terrainHeightAtPoint = terrainHeight (vec_x (position w)) (vec_z (position w))
      in if crouch k then terrainHeightAtPoint + crouchHeight
         else terrainHeightAtPoint + playerHeight)"

text \<open>Lines 209 to 215.\<close>

definition resolveGround :: "(real \<Rightarrow> real \<Rightarrow> real) \<Rightarrow> real \<Rightarrow> keys \<Rightarrow> rig \<Rightarrow> rig" where
  "resolveGround terrainHeight dt k w =
     (if vec_y (position w) \<le> desiredHeight terrainHeight k w
      then w\<lparr>position := (position w)
               \<lparr>vec_y := damp (vec_y (position w)) (desiredHeight terrainHeight k w) 18 dt\<rparr>,
             velocity := (velocity w)\<lparr>vec_y := 0\<rparr>,
             isGrounded := True\<rparr>
      else w\<lparr>isGrounded := False\<rparr>)"

text \<open>Lines 217 to 224. The planar position is not changed by the ground resolution, so
  the terrain height read here is the \<^verbatim>\<open>terrainHeightAtPoint\<close> of line 204.\<close>

definition publish :: "(real \<Rightarrow> real \<Rightarrow> real) \<Rightarrow> rig \<Rightarrow> rig" where
  "publish terrainHeight w =
     (let terrainHeightAtPoint = terrainHeight (vec_x (position w)) (vec_z (position w));
          horizontalSpeed =
            sqrt (vec_x (velocity w) * vec_x (velocity w) + vec_z (velocity w) * vec_z (velocity w))
      in w\<lparr>camera_position := position w,
           store := setMetrics horizontalSpeed (vec_y (position w) - terrainHeightAtPoint)
                      (stamina w) (store w)\<rparr>)"

subsection \<open>One frame\<close>

text \<open>The state in which the jump condition of line 189 is read, for the time step
  \<open>dt\<close> already clamped.\<close>

definition beforeJump :: "(real \<Rightarrow> real \<Rightarrow> real) \<Rightarrow> real \<Rightarrow> keys \<Rightarrow> quaternion \<Rightarrow> rig \<Rightarrow> rig" where
  "beforeJump terrainHeight dt k q w0 =
     (let w1 = (resolveSpawn terrainHeight w0)\<lparr>heading := q\<rparr>;
          sprint = canSprint k (stamina w1);
          w2 = dampVelocity dt k q (targetSpeed k (stamina w1)) w1;
          w3 = updateStamina (sprint \<and> isMoving k q) dt w2
      in tickCooldown dt w3)"

text \<open>The state after line 195, the gravity step.\<close>

definition afterGravity :: "(real \<Rightarrow> real \<Rightarrow> real) \<Rightarrow> real \<Rightarrow> keys \<Rightarrow> quaternion \<Rightarrow> rig \<Rightarrow> rig" where
  "afterGravity terrainHeight dt k q w =
     applyGravity dt (tryJump k (beforeJump terrainHeight dt k q w))"

text \<open>The state after line 199, before the clamp.\<close>

definition afterIntegration :: "(real \<Rightarrow> real \<Rightarrow> real) \<Rightarrow> real \<Rightarrow> keys \<Rightarrow> quaternion \<Rightarrow> rig \<Rightarrow> rig" where
  "afterIntegration terrainHeight dt k q w = integrate dt (afterGravity terrainHeight dt k q w)"

text \<open>The callback. \<open>controls\<close> is \<^verbatim>\<open>controlsRef.current\<close>, \<open>delta\<close> the elapsed time the
  renderer passes, \<open>k\<close> the result of \<^verbatim>\<open>getKeys()\<close> and \<open>q\<close> the quaternion of the camera.\<close>

definition useFrame ::
  "(real \<Rightarrow> real \<Rightarrow> real) \<Rightarrow> real \<Rightarrow> pointerLockControls option \<Rightarrow> real \<Rightarrow> keys \<Rightarrow> quaternion
     \<Rightarrow> rig \<Rightarrow> rig" where
  "useFrame terrainHeight ARENA_HALF_SIZE controls delta k q w =
     (let dt = clampDelta delta
      in case controls of
           None \<Rightarrow> w
         | Some c \<Rightarrow>
             publish terrainHeight
               (resolveGround terrainHeight dt k
                 (clampPosition ARENA_HALF_SIZE
                   (afterIntegration terrainHeight dt k q w))))"

subsection \<open>A session: frames in sequence\<close>

text \<open>Between two frames the environment may mount or unmount the controls, lock or
  unlock the pointer, change the keys and turn the camera; a frame records what the
  callback finds.\<close>

record frame =
  frame_controls :: "pointerLockControls option"
  frame_delta :: real
  frame_keys :: keys
  frame_quaternion :: quaternion

fun runFrames :: "(real \<Rightarrow> real \<Rightarrow> real) \<Rightarrow> real \<Rightarrow> rig \<Rightarrow> frame list \<Rightarrow> rig" where
  "runFrames terrainHeight ARENA_HALF_SIZE w [] = w"
| "runFrames terrainHeight ARENA_HALF_SIZE w (f # fs) =
     runFrames terrainHeight ARENA_HALF_SIZE
       (useFrame terrainHeight ARENA_HALF_SIZE (frame_controls f) (frame_delta f) (frame_keys f)
          (frame_quaternion f) w) fs"

text \<open>Inputs used in the examples.\<close>

definition noKeys :: keys where
  "noKeys = \<lparr>forward = False, backward = False, left = False, right = False,
             run = False, jump = False, crouch = False\<rparr>"

definition identityQuaternion :: quaternion where
  "identityQuaternion = \<lparr>quat_x = 0, quat_y = 0, quat_z = 0, quat_w = 1\<rparr>"

definition unlockedControls :: pointerLockControls where
  "unlockedControls = \<lparr>isLocked = False\<rparr>"

definition lockedControls :: pointerLockControls where
  "lockedControls = \<lparr>isLocked = True\<rparr>"

definition jumpKeys :: keys where
  "jumpKeys = noKeys\<lparr>jump := True\<rparr>"

definition forwardKeys :: keys where
  "forwardKeys = noKeys\<lparr>forward := True\<rparr>"

text \<open>A rig standing at eye height on flat terrain, one at crouch height, and one in the
  air.\<close>

definition standingRig :: rig where
  "standingRig =
     initialRig\<lparr>position := \<lparr>vec_x = 0, vec_y = 1.72, vec_z = 20\<rparr>, isGrounded := True\<rparr>"

definition crouchedRig :: rig where
  "crouchedRig =
     initialRig\<lparr>position := \<lparr>vec_x = 0, vec_y = 1.05, vec_z = 20\<rparr>, isGrounded := True\<rparr>"

definition airborneRig :: rig where
  "airborneRig = initialRig\<lparr>position := \<lparr>vec_x = 0, vec_y = 50, vec_z = 20\<rparr>\<rparr>"

definition sprintFrame :: frame where
  "sprintFrame =
     \<lparr>frame_controls = Some lockedControls, frame_delta = 0.05,
      frame_keys = noKeys\<lparr>forward := True, run := True\<rparr>,
      frame_quaternion = identityQuaternion\<rparr>"

text \<open>A rig at the eastern bound of an arena of half size 100, moving east.\<close>

definition eastWallRig :: rig where
  "eastWallRig =
     initialRig\<lparr>position := \<lparr>vec_x = 97, vec_y = 1.72, vec_z = 20\<rparr>,
                velocity := \<lparr>vec_x = 5, vec_y = 0, vec_z = 0\<rparr>, isGrounded := True\<rparr>"

text \<open>Frames of 0.04 seconds with the controls mounted: one without keys, one with the jump key.\<close>

definition idleFrame :: frame where
  "idleFrame =
     \<lparr>frame_controls = Some lockedControls, frame_delta = 0.04,
      frame_keys = noKeys, frame_quaternion = identityQuaternion\<rparr>"

definition jumpFrame :: frame where
  "jumpFrame =
     \<lparr>frame_controls = Some lockedControls, frame_delta = 0.04,
      frame_keys = jumpKeys, frame_quaternion = identityQuaternion\<rparr>"

text \<open>The player state of the data model: the components of the rig that the movement
  controller owns.\<close>

definition playerKinematics :: "rig \<Rightarrow> vector3 \<times> vector3 \<times> real \<times> bool \<times> real" where
  "playerKinematics w = (position w, velocity w, stamina w, isGrounded w, cooldown w)"

text \<open>A rig with the player state of the initial one and another camera position and
  store.\<close>

definition otherRig :: rig where
  "otherRig =
     initialRig\<lparr>camera_position := \<lparr>vec_x = 1, vec_y = 2, vec_z = 3\<rparr>,
                store := setLocked True (setMetrics 3 4 5 initialStore)\<rparr>"

section \<open>Properties of the stages\<close>

text \<open>What each stage leaves untouched.\<close>

lemma resolveSpawn_fields [simp]:
  "velocity (resolveSpawn th w) = velocity w"
  "stamina (resolveSpawn th w) = stamina w"
  "isGrounded (resolveSpawn th w) = isGrounded w"
  "cooldown (resolveSpawn th w) = cooldown w"
  "heading (resolveSpawn th w) = heading w"
  "camera_position (resolveSpawn th w) = camera_position w"
  "store (resolveSpawn th w) = store w"
  by (simp_all add: resolveSpawn_def)

lemma dampVelocity_fields [simp]:
  "position (dampVelocity dt k q ts w) = position w"
  "stamina (dampVelocity dt k q ts w) = stamina w"
  "isGrounded (dampVelocity dt k q ts w) = isGrounded w"
  "cooldown (dampVelocity dt k q ts w) = cooldown w"
  "heading (dampVelocity dt k q ts w) = heading w"
  "camera_position (dampVelocity dt k q ts w) = camera_position w"
  "store (dampVelocity dt k q ts w) = store w"
  "vec_y (velocity (dampVelocity dt k q ts w)) = vec_y (velocity w)"
  by (simp_all add: dampVelocity_def Let_def)

lemma updateStamina_fields [simp]:
  "velocity (updateStamina b dt w) = velocity w"
  "position (updateStamina b dt w) = position w"
  "isGrounded (updateStamina b dt w) = isGrounded w"
  "cooldown (updateStamina b dt w) = cooldown w"
  "heading (updateStamina b dt w) = heading w"
  "camera_position (updateStamina b dt w) = camera_position w"
  "store (updateStamina b dt w) = store w"
  by (simp_all add: updateStamina_def)

lemma tickCooldown_fields [simp]:
  "velocity (tickCooldown dt w) = velocity w"
  "position (tickCooldown dt w) = position w"
  "stamina (tickCooldown dt w) = stamina w"
  "isGrounded (tickCooldown dt w) = isGrounded w"
  "heading (tickCooldown dt w) = heading w"
  "camera_position (tickCooldown dt w) = camera_position w"
  "store (tickCooldown dt w) = store w"
  by (simp_all add: tickCooldown_def)

lemma tryJump_fields [simp]:
  "position (tryJump k w) = position w"
  "stamina (tryJump k w) = stamina w"
  "heading (tryJump k w) = heading w"
  "camera_position (tryJump k w) = camera_position w"
  "store (tryJump k w) = store w"
  "vec_x (velocity (tryJump k w)) = vec_x (velocity w)"
  "vec_z (velocity (tryJump k w)) = vec_z (velocity w)"
  by (simp_all add: tryJump_def)

lemma applyGravity_fields [simp]:
  "position (applyGravity dt w) = position w"
  "stamina (applyGravity dt w) = stamina w"
  "isGrounded (applyGravity dt w) = isGrounded w"
  "cooldown (applyGravity dt w) = cooldown w"
  "heading (applyGravity dt w) = heading w"
  "camera_position (applyGravity dt w) = camera_position w"
  "store (applyGravity dt w) = store w"
  "vec_x (velocity (applyGravity dt w)) = vec_x (velocity w)"
  "vec_z (velocity (applyGravity dt w)) = vec_z (velocity w)"
  by (simp_all add: applyGravity_def)

lemma integrate_fields [simp]:
  "velocity (integrate dt w) = velocity w"
  "stamina (integrate dt w) = stamina w"
  "isGrounded (integrate dt w) = isGrounded w"
  "cooldown (integrate dt w) = cooldown w"
  "heading (integrate dt w) = heading w"
  "camera_position (integrate dt w) = camera_position w"
  "store (integrate dt w) = store w"
  by (simp_all add: integrate_def)

lemma clampPosition_fields [simp]:
  "velocity (clampPosition A w) = velocity w"
  "stamina (clampPosition A w) = stamina w"
  "isGrounded (clampPosition A w) = isGrounded w"
  "cooldown (clampPosition A w) = cooldown w"
  "heading (clampPosition A w) = heading w"
  "camera_position (clampPosition A w) = camera_position w"
  "store (clampPosition A w) = store w"
  "vec_y (position (clampPosition A w)) = vec_y (position w)"
  by (simp_all add: clampPosition_def)

lemma resolveGround_fields [simp]:
  "stamina (resolveGround th dt k w) = stamina w"
  "cooldown (resolveGround th dt k w) = cooldown w"
  "heading (resolveGround th dt k w) = heading w"
  "camera_position (resolveGround th dt k w) = camera_position w"
  "store (resolveGround th dt k w) = store w"
  "vec_x (velocity (resolveGround th dt k w)) = vec_x (velocity w)"
  "vec_z (velocity (resolveGround th dt k w)) = vec_z (velocity w)"
  "vec_x (position (resolveGround th dt k w)) = vec_x (position w)"
  "vec_z (position (resolveGround th dt k w)) = vec_z (position w)"
  by (simp_all add: resolveGround_def)

lemma publish_fields [simp]:
  "velocity (publish th w) = velocity w"
  "position (publish th w) = position w"
  "stamina (publish th w) = stamina w"
  "isGrounded (publish th w) = isGrounded w"
  "cooldown (publish th w) = cooldown w"
  "heading (publish th w) = heading w"
  by (simp_all add: publish_def Let_def)

lemma useFrame_None: "useFrame th A None delta k q w = w"
  by (simp add: useFrame_def)

lemma useFrame_Some:
  "useFrame th A (Some c) delta k q w =
     publish th (resolveGround th (clampDelta delta) k (clampPosition A
       (integrate (clampDelta delta) (applyGravity (clampDelta delta)
         (tryJump k (beforeJump th (clampDelta delta) k q w))))))"
  by (simp add: useFrame_def afterIntegration_def afterGravity_def Let_def)

lemma beforeJump_stamina:
  "stamina (beforeJump th dt k q w) =
     (if canSprint k (stamina w) \<and> isMoving k q then max 0 (stamina w - 32 * dt)
      else min 100 (stamina w + 20 * dt))"
  by (simp add: beforeJump_def Let_def updateStamina_def)

lemma useFrame_stamina:
  "stamina (useFrame th A (Some c) delta k q w) =
     (if canSprint k (stamina w) \<and> isMoving k q then max 0 (stamina w - 32 * clampDelta delta)
      else min 100 (stamina w + 20 * clampDelta delta))"
  by (simp only: useFrame_Some publish_fields resolveGround_fields clampPosition_fields
      integrate_fields applyGravity_fields tryJump_fields beforeJump_stamina)

lemma beforeJump_fields [simp]:
  "isGrounded (beforeJump th dt k q w) = isGrounded w"
  "heading (beforeJump th dt k q w) = q"
  "camera_position (beforeJump th dt k q w) = camera_position w"
  "store (beforeJump th dt k q w) = store w"
  "position (beforeJump th dt k q w) = position (resolveSpawn th w)"
  "vec_y (velocity (beforeJump th dt k q w)) = vec_y (velocity w)"
  "cooldown (beforeJump th dt k q w) = (if cooldown w > 0 then cooldown w - dt else cooldown w)"
  by (simp_all add: beforeJump_def Let_def tickCooldown_def)

lemma initial_fields [simp]:
  "velocity initialRig = \<lparr>vec_x = 0, vec_y = 0, vec_z = 0\<rparr>"
  "position initialRig = \<lparr>vec_x = 0, vec_y = 0, vec_z = 20\<rparr>"
  "stamina initialRig = 100"
  "isGrounded initialRig = False"
  "cooldown initialRig = 0"
  by (simp_all add: initialRig_def)

lemma resolveSpawn_initial [simp]: "resolveSpawn th initialRig = initialRig"
  by (simp add: resolveSpawn_def lengthSq_def)

section \<open>Stamina\<close>

lemma stamina_step:
  assumes "0 \<le> stamina w" "stamina w \<le> 100" "0 \<le> delta"
  shows "0 \<le> stamina (useFrame th A c delta k q w) \<and> stamina (useFrame th A c delta k q w) \<le> 100"
proof (cases c)
  case None
  with assms show ?thesis by (simp add: useFrame_None)
next
  case (Some a)
  from assms show ?thesis
    unfolding Some useFrame_stamina by (auto simp: min_def max_def clampDelta_def)
qed

lemma runFrames_stamina:
  assumes "\<forall>f\<in>set fs. 0 \<le> frame_delta f" "0 \<le> stamina w" "stamina w \<le> 100"
  shows "0 \<le> stamina (runFrames th A w fs) \<and> stamina (runFrames th A w fs) \<le> 100"
  using assms
proof (induction fs arbitrary: w)
  case Nil
  then show ?case by simp
next
  case (Cons f fs)
  have "0 \<le> frame_delta f"
    using Cons.prems(1) by simp
  then have step:
    "0 \<le> stamina (useFrame th A (frame_controls f) (frame_delta f) (frame_keys f)
                    (frame_quaternion f) w)
     \<and> stamina (useFrame th A (frame_controls f) (frame_delta f) (frame_keys f)
                    (frame_quaternion f) w) \<le> 100"
    using stamina_step Cons.prems(2,3) by blast
  have rest: "\<forall>g\<in>set fs. 0 \<le> frame_delta g"
    using Cons.prems(1) by simp
  show ?case
    using Cons.IH [OF rest] step by simp
qed

text \<open>
  Claim C3. Starting from the initial stamina of 100, after any sequence of frames whose
  elapsed times are not negative the stamina lies between 0 and 100. In a frame that runs,
  sprinting while moving drains 32 units per second and stops at 0; otherwise stamina
  regenerates at 20 units per second and stops at 100. Since the list of frames is
  arbitrary, the bound holds after every frame of a session.
\<close>

theorem C3_stamina_within_bounds:
  assumes "\<forall>f\<in>set fs. 0 \<le> frame_delta f"
  shows "0 \<le> stamina (runFrames th A initialRig fs)
    \<and> stamina (runFrames th A initialRig fs) \<le> 100
    \<and> stamina (useFrame th A (Some c) delta k q w) =
        (if canSprint k (stamina w) \<and> isMoving k q
         then max 0 (stamina w - 32 * clampDelta delta)
         else min 100 (stamina w + 20 * clampDelta delta))"
  using runFrames_stamina [OF assms, of initialRig th A] useFrame_stamina [of th A c delta k q w]
  by simp

theorem C3_stamina_within_bounds_witness:
  "0 \<le> frame_delta sprintFrame \<and>
   0 \<le> stamina (runFrames flatTerrain 100 initialRig [sprintFrame, sprintFrame]) \<and>
     stamina (runFrames flatTerrain 100 initialRig [sprintFrame, sprintFrame]) \<le> 100"
proof -
  have d: "0 \<le> frame_delta sprintFrame"
    by (simp add: sprintFrame_def)
  then have h: "\<forall>f\<in>set [sprintFrame, sprintFrame]. 0 \<le> frame_delta f"
    by simp
  from C3_stamina_within_bounds [OF h] d show ?thesis
    by blast
qed

section \<open>The gate of the update\<close>

text \<open>
  Claim C1, as stated: in a frame in which the pointer is not locked the update is skipped
  and nothing changes. It fails: the callback tests only whether the controls object
  exists. With the controls mounted and the pointer unlocked, the first frame of a session
  on flat terrain already changes the grounded flag.
\<close>

theorem C1_unlocked_frame_updates:
  "\<not> isLocked unlockedControls \<and>
   isGrounded (useFrame flatTerrain 100 (Some unlockedControls) 0.016 noKeys identityQuaternion
     initialRig) \<noteq> isGrounded initialRig"
  apply (simp only: useFrame_Some publish_fields)
  apply (simp add: resolveGround_def desiredHeight_def flatTerrain_def noKeys_def
      playerHeight_def clampDelta_def integrate_def applyGravity_def gravity_def tryJump_def
      jumpFires_def clampPosition_def unlockedControls_def)
  done

text \<open>
  Claim C1, amended. In a frame in which the controls object is not mounted
  (\<^verbatim>\<open>controlsRef.current\<close> is null) the update is skipped and the whole state, camera and
  store included, is unchanged. When the controls are mounted the update runs, and its
  result does not depend on whether the pointer is locked.
\<close>

theorem C1_update_gated_by_controls_only:
  "useFrame th A None delta k q w = w \<and>
   useFrame th A (Some c) delta k q w = useFrame th A (Some c') delta k q w"
  by (simp add: useFrame_def)

section \<open>Components of the result of a frame\<close>

lemma damp_zero [simp]: "damp a b l 0 = a"
  by (simp add: damp_def lerp_def)

lemma example_fields [simp]:
  "position standingRig = \<lparr>vec_x = 0, vec_y = 1.72, vec_z = 20\<rparr>"
  "velocity standingRig = \<lparr>vec_x = 0, vec_y = 0, vec_z = 0\<rparr>"
  "stamina standingRig = 100"
  "isGrounded standingRig = True"
  "cooldown standingRig = 0"
  "position crouchedRig = \<lparr>vec_x = 0, vec_y = 1.05, vec_z = 20\<rparr>"
  "velocity crouchedRig = \<lparr>vec_x = 0, vec_y = 0, vec_z = 0\<rparr>"
  "stamina crouchedRig = 100"
  "isGrounded crouchedRig = True"
  "cooldown crouchedRig = 0"
  "position airborneRig = \<lparr>vec_x = 0, vec_y = 50, vec_z = 20\<rparr>"
  "velocity airborneRig = \<lparr>vec_x = 0, vec_y = 0, vec_z = 0\<rparr>"
  "stamina airborneRig = 100"
  "isGrounded airborneRig = False"
  "cooldown airborneRig = 0"
  by (simp_all add: standingRig_def crouchedRig_def airborneRig_def initialRig_def)

lemma key_fields [simp]:
  "jump jumpKeys" "\<not> crouch jumpKeys" "\<not> run jumpKeys"
  "\<not> jump noKeys" "\<not> crouch noKeys" "\<not> run noKeys"
  "\<not> jump forwardKeys" "\<not> crouch forwardKeys" "\<not> run forwardKeys"
  "forward forwardKeys" "\<not> backward forwardKeys" "\<not> left forwardKeys" "\<not> right forwardKeys"
  by (simp_all add: jumpKeys_def noKeys_def forwardKeys_def)

lemma useFrame_cooldown:
  "cooldown (useFrame th A (Some c) delta k q w) =
     (if jumpFires k (beforeJump th (clampDelta delta) k q w) then 0.35
      else if cooldown w > 0 then cooldown w - clampDelta delta else cooldown w)"
  by (simp add: useFrame_Some tryJump_def)

lemma jumpFires_beforeJump:
  "jumpFires k (beforeJump th dt k q w) =
     (jump k \<and> isGrounded w \<and> (if cooldown w > 0 then cooldown w - dt else cooldown w) \<le> 0)"
  by (simp add: jumpFires_def)

lemma vector3_eqI: "vec_x a = vec_x b \<Longrightarrow> vec_y a = vec_y b \<Longrightarrow> vec_z a = vec_z b \<Longrightarrow> (a::vector3) = b"
  by simp

lemma useFrame_velocity_x:
  "vec_x (velocity (useFrame th A (Some c) delta k q w)) =
     (if isMoving k q
      then damp (vec_x (velocity w)) (vec_x (moveVector k q) * targetSpeed k (stamina w)) 8 (clampDelta delta)
      else damp (vec_x (velocity w)) 0 5.5 (clampDelta delta))"
  by (simp add: useFrame_Some beforeJump_def Let_def dampVelocity_def)

lemma useFrame_velocity_z:
  "vec_z (velocity (useFrame th A (Some c) delta k q w)) =
     (if isMoving k q
      then damp (vec_z (velocity w)) (vec_z (moveVector k q) * targetSpeed k (stamina w)) 8 (clampDelta delta)
      else damp (vec_z (velocity w)) 0 5.5 (clampDelta delta))"
  by (simp add: useFrame_Some beforeJump_def Let_def dampVelocity_def)

lemma useFrame_velocity_y:
  "vec_y (velocity (useFrame th A (Some c) delta k q w)) =
     (if vec_y (position (afterIntegration th (clampDelta delta) k q w))
           \<le> desiredHeight th k (clampPosition A (afterIntegration th (clampDelta delta) k q w))
      then 0
      else vec_y (velocity (afterGravity th (clampDelta delta) k q w)))"
  by (simp add: useFrame_Some afterIntegration_def afterGravity_def resolveGround_def)

lemma useFrame_isGrounded:
  "isGrounded (useFrame th A (Some c) delta k q w) =
     (vec_y (position (afterIntegration th (clampDelta delta) k q w))
        \<le> desiredHeight th k (clampPosition A (afterIntegration th (clampDelta delta) k q w)))"
  by (simp add: useFrame_Some afterIntegration_def afterGravity_def resolveGround_def)

section \<open>A frame of no elapsed time\<close>

text \<open>
  Claim C2, as stated: an update with an elapsed time of zero, or a negative one, leaves
  position, velocity, stamina, grounded flag and cooldown unchanged, for every state and every
  input. It fails: the callback has no test on the sign of the time step. With an elapsed
  time of zero, a grounded rig whose jump key is pressed starts the cooldown; with an
  elapsed time of minus one second, stamina falls from 50 to 30.
\<close>

theorem C2_zero_dt_jump_changes_state:
  "cooldown (useFrame flatTerrain 100 (Some lockedControls) 0 jumpKeys identityQuaternion standingRig)
     \<noteq> cooldown standingRig
   \<and> stamina (useFrame flatTerrain 100 (Some lockedControls) (- 1) jumpKeys identityQuaternion
        (standingRig\<lparr>stamina := 50\<rparr>)) \<noteq> stamina (standingRig\<lparr>stamina := 50\<rparr>)"
  by (simp add: useFrame_cooldown jumpFires_beforeJump useFrame_stamina canSprint_def clampDelta_def)

text \<open>
  Claim C2, amended. An update with an elapsed time of zero leaves position, velocity,
  stamina, grounded flag and cooldown unchanged when the state is settled: the position is
  not the origin and lies within the arena bounds, the stamina lies between 0 and 100, the
  jump branch does not fire, the grounded flag agrees with the ground test for the keys of
  this frame, and a grounded rig has no vertical velocity. Nothing is said of a negative
  elapsed time.
\<close>

theorem C2_zero_dt_settled_noop:
  assumes origin: "lengthSq (position w) \<noteq> 0"
    and xin: "- A + 3 \<le> vec_x (position w)" "vec_x (position w) \<le> A - 3"
    and zin: "- A + 3 \<le> vec_z (position w)" "vec_z (position w) \<le> A - 3"
    and st: "0 \<le> stamina w" "stamina w \<le> 100"
    and nojump: "\<not> (jump k \<and> isGrounded w \<and> cooldown w \<le> 0)"
    and ground: "isGrounded w = (vec_y (position w) \<le> desiredHeight th k w)"
    and rest: "isGrounded w \<longrightarrow> vec_y (velocity w) = 0"
  shows "position (useFrame th A (Some c) 0 k q w) = position w
    \<and> velocity (useFrame th A (Some c) 0 k q w) = velocity w
    \<and> stamina (useFrame th A (Some c) 0 k q w) = stamina w
    \<and> isGrounded (useFrame th A (Some c) 0 k q w) = isGrounded w
    \<and> cooldown (useFrame th A (Some c) 0 k q w) = cooldown w"
proof -
  have dt: "clampDelta 0 = 0"
    by (simp add: clampDelta_def)
  have sp: "resolveSpawn th w = w"
    using origin by (simp add: resolveSpawn_def)
  have nf: "\<not> jumpFires k (beforeJump th 0 k q w)"
    using nojump by (simp add: jumpFires_beforeJump)
  have s: "stamina (useFrame th A (Some c) 0 k q w) = stamina w"
    using st by (simp add: useFrame_stamina dt)
  have cd: "cooldown (useFrame th A (Some c) 0 k q w) = cooldown w"
    using nf by (simp add: useFrame_cooldown dt)
  have vx: "vec_x (velocity (useFrame th A (Some c) 0 k q w)) = vec_x (velocity w)"
    by (simp add: useFrame_velocity_x dt)
  have vz: "vec_z (velocity (useFrame th A (Some c) 0 k q w)) = vec_z (velocity w)"
    by (simp add: useFrame_velocity_z dt)
  have ig: "integrate 0 (applyGravity 0 (tryJump k (beforeJump th 0 k q w)))
      = (beforeJump th 0 k q w)"
    using nf by (simp add: integrate_def applyGravity_def tryJump_def sp)
  have cl: "position (clampPosition A (beforeJump th 0 k q w)) = position w"
    using xin zin by (simp add: clampPosition_def clampToArena_def sp)
  have dh: "desiredHeight th k (clampPosition A (beforeJump th 0 k q w)) = desiredHeight th k w"
    using cl by (simp add: desiredHeight_def)
  have p: "position (useFrame th A (Some c) 0 k q w) = position w"
    by (simp add: useFrame_Some dt ig resolveGround_def dh cl)
  have g: "isGrounded (useFrame th A (Some c) 0 k q w) = isGrounded w"
    using ground by (simp add: useFrame_Some dt ig resolveGround_def dh cl)
  have vy: "vec_y (velocity (useFrame th A (Some c) 0 k q w)) = vec_y (velocity w)"
    using ground rest by (simp add: useFrame_Some dt ig resolveGround_def dh cl)
  have v: "velocity (useFrame th A (Some c) 0 k q w) = velocity w"
    using vx vy vz by (rule vector3_eqI)
  show ?thesis
    using p v s g cd by simp
qed

theorem C2_zero_dt_settled_noop_witness:
  "lengthSq (position standingRig) \<noteq> 0
   \<and> - 100 + 3 \<le> vec_x (position standingRig) \<and> vec_x (position standingRig) \<le> 100 - 3
   \<and> - 100 + 3 \<le> vec_z (position standingRig) \<and> vec_z (position standingRig) \<le> 100 - 3
   \<and> 0 \<le> stamina standingRig \<and> stamina standingRig \<le> 100
   \<and> \<not> (jump noKeys \<and> isGrounded standingRig \<and> cooldown standingRig \<le> 0)
   \<and> isGrounded standingRig = (vec_y (position standingRig) \<le> desiredHeight flatTerrain noKeys standingRig)
   \<and> vec_y (velocity standingRig) = 0
   \<and> position (useFrame flatTerrain 100 (Some lockedControls) 0 noKeys identityQuaternion standingRig)
       = position standingRig
   \<and> velocity (useFrame flatTerrain 100 (Some lockedControls) 0 noKeys identityQuaternion standingRig)
       = velocity standingRig
   \<and> stamina (useFrame flatTerrain 100 (Some lockedControls) 0 noKeys identityQuaternion standingRig)
       = stamina standingRig
   \<and> isGrounded (useFrame flatTerrain 100 (Some lockedControls) 0 noKeys identityQuaternion standingRig)
       = isGrounded standingRig
   \<and> cooldown (useFrame flatTerrain 100 (Some lockedControls) 0 noKeys identityQuaternion standingRig)
       = cooldown standingRig"
proof -
  have h1: "lengthSq (position standingRig) \<noteq> 0"
    by (simp add: lengthSq_def)
  have h2: "- 100 + 3 \<le> vec_x (position standingRig)" "vec_x (position standingRig) \<le> 100 - 3"
    "- 100 + 3 \<le> vec_z (position standingRig)" "vec_z (position standingRig) \<le> 100 - 3"
    by simp_all
  have h3: "0 \<le> stamina standingRig" "stamina standingRig \<le> 100"
    by simp_all
  have h4: "\<not> (jump noKeys \<and> isGrounded standingRig \<and> cooldown standingRig \<le> 0)"
    by simp
  have h5: "isGrounded standingRig
      = (vec_y (position standingRig) \<le> desiredHeight flatTerrain noKeys standingRig)"
    by (simp add: desiredHeight_def flatTerrain_def playerHeight_def)
  have h6: "vec_y (velocity standingRig) = 0"
    by simp
  then have h6': "isGrounded standingRig \<longrightarrow> vec_y (velocity standingRig) = 0"
    by simp
  note C2_zero_dt_settled_noop [OF h1 h2 h3 h4 h5 h6', of lockedControls identityQuaternion]
  with h1 h2 h3 h4 h5 h6 show ?thesis
    by blast
qed

section \<open>The jump\<close>

text \<open>
  Claim C4, as stated: the jump branch fires only when the jump key is pressed, the rig is
  grounded and the decremented cooldown is at most zero, and at the end of an update in
  which it fired the rig is not grounded and the cooldown is 0.35. The part on the grounded
  flag fails: the ground resolution of the same update computes the flag again. A rig
  standing at crouch height that releases crouch and jumps in a frame of 0.016 seconds rises
  by less than the difference of the eye heights, and ends the update grounded.
\<close>

theorem C4_jump_swallowed_by_ground:
  "jumpFires jumpKeys
     (beforeJump flatTerrain (clampDelta 0.016) jumpKeys identityQuaternion crouchedRig)
   \<and> isGrounded (useFrame flatTerrain 100 (Some lockedControls) 0.016 jumpKeys identityQuaternion
        crouchedRig)"
  by (simp add: jumpFires_beforeJump useFrame_isGrounded afterIntegration_def afterGravity_def
      integrate_def applyGravity_def tryJump_def desiredHeight_def flatTerrain_def playerHeight_def
      gravity_def clampDelta_def resolveSpawn_def lengthSq_def)

text \<open>
  Claim C4, amended. The jump branch fires exactly when the jump key is pressed, the rig is
  grounded and the cooldown, after the decrement of this frame, is at most zero; when it does
  not fire it changes nothing. At the end of an update in which it fired the cooldown is
  0.35 and the vertical velocity after the gravity step is 12.5 less gravity times the time
  step; the rig is grounded at the end exactly when the integrated vertical position is at or
  below the eye-height target at the clamped planar position, as the ground resolution
  decides in every frame. In that case the vertical velocity at the end of the update is
  zero; otherwise it is the velocity after the gravity step.
\<close>

theorem C4_jump_branch:
  "jumpFires k (beforeJump th (clampDelta delta) k q w) =
     (jump k \<and> isGrounded w
      \<and> (if cooldown w > 0 then cooldown w - clampDelta delta else cooldown w) \<le> 0)
   \<and> (\<not> jumpFires k (beforeJump th (clampDelta delta) k q w) \<longrightarrow>
        tryJump k (beforeJump th (clampDelta delta) k q w) = beforeJump th (clampDelta delta) k q w)
   \<and> (jumpFires k (beforeJump th (clampDelta delta) k q w) \<longrightarrow>
        cooldown (useFrame th A (Some c) delta k q w) = 0.35
        \<and> vec_y (velocity (afterGravity th (clampDelta delta) k q w))
            = 12.5 - gravity * clampDelta delta
        \<and> isGrounded (useFrame th A (Some c) delta k q w) =
            (vec_y (position (afterIntegration th (clampDelta delta) k q w))
              \<le> desiredHeight th k (clampPosition A (afterIntegration th (clampDelta delta) k q w)))
        \<and> vec_y (velocity (useFrame th A (Some c) delta k q w)) =
            (if vec_y (position (afterIntegration th (clampDelta delta) k q w))
                  \<le> desiredHeight th k
                      (clampPosition A (afterIntegration th (clampDelta delta) k q w))
             then 0
             else 12.5 - gravity * clampDelta delta))"
  by (simp add: jumpFires_beforeJump useFrame_cooldown useFrame_isGrounded useFrame_velocity_y
      tryJump_def afterGravity_def applyGravity_def)

theorem C4_jump_branch_witness:
  "jumpFires jumpKeys
     (beforeJump flatTerrain (clampDelta 0.016) jumpKeys identityQuaternion standingRig)
   \<and> cooldown (useFrame flatTerrain 100 (Some lockedControls) 0.016 jumpKeys identityQuaternion
        standingRig) = 0.35
   \<and> \<not> isGrounded (useFrame flatTerrain 100 (Some lockedControls) 0.016 jumpKeys
        identityQuaternion standingRig)
   \<and> vec_y (velocity (useFrame flatTerrain 100 (Some lockedControls) 0.016 jumpKeys
        identityQuaternion standingRig)) = 12.5 - gravity * clampDelta 0.016
   \<and> \<not> jumpFires noKeys
        (beforeJump flatTerrain (clampDelta 0.016) noKeys identityQuaternion standingRig)
   \<and> tryJump noKeys
        (beforeJump flatTerrain (clampDelta 0.016) noKeys identityQuaternion standingRig)
      = beforeJump flatTerrain (clampDelta 0.016) noKeys identityQuaternion standingRig"
proof -
  have f: "jumpFires jumpKeys
      (beforeJump flatTerrain (clampDelta 0.016) jumpKeys identityQuaternion standingRig)"
    by (simp add: jumpFires_beforeJump)
  have a: "\<not> vec_y (position (afterIntegration flatTerrain (clampDelta 0.016) jumpKeys
          identityQuaternion standingRig))
      \<le> desiredHeight flatTerrain jumpKeys (clampPosition 100
          (afterIntegration flatTerrain (clampDelta 0.016) jumpKeys identityQuaternion
            standingRig))"
    by (simp add: jumpFires_beforeJump afterIntegration_def afterGravity_def
      integrate_def applyGravity_def tryJump_def desiredHeight_def flatTerrain_def playerHeight_def
      gravity_def clampDelta_def resolveSpawn_def lengthSq_def)
  have n: "\<not> jumpFires noKeys
      (beforeJump flatTerrain (clampDelta 0.016) noKeys identityQuaternion standingRig)"
    by (simp add: jumpFires_beforeJump)
  from C4_jump_branch [of jumpKeys flatTerrain "0.016" identityQuaternion standingRig 100
      lockedControls]
    C4_jump_branch [of noKeys flatTerrain "0.016" identityQuaternion standingRig 100
      lockedControls] f a n
  show ?thesis
    by (simp only: if_False simp_thms)
qed

section \<open>The arena bounds\<close>

lemma clamp_bounds:
  "lo \<le> hi \<Longrightarrow> lo \<le> clampToArena v lo hi \<and> clampToArena v lo hi \<le> hi"
  by (simp add: clampToArena_def)

lemma useFrame_position_x:
  "vec_x (position (useFrame th A (Some c) delta k q w)) =
     clampToArena (vec_x (position (afterIntegration th (clampDelta delta) k q w))) (- A + 3) (A - 3)"
  by (simp add: useFrame_Some afterIntegration_def afterGravity_def clampPosition_def)

lemma useFrame_position_z:
  "vec_z (position (useFrame th A (Some c) delta k q w)) =
     clampToArena (vec_z (position (afterIntegration th (clampDelta delta) k q w))) (- A + 3) (A - 3)"
  by (simp add: useFrame_Some afterIntegration_def afterGravity_def clampPosition_def)

lemma useFrame_velocity_after:
  "vec_x (velocity (useFrame th A (Some c) delta k q w))
     = vec_x (velocity (afterIntegration th (clampDelta delta) k q w))"
  "vec_z (velocity (useFrame th A (Some c) delta k q w))
     = vec_z (velocity (afterIntegration th (clampDelta delta) k q w))"
  by (simp_all add: useFrame_Some afterIntegration_def afterGravity_def)

lemma isMoving_noKeys [simp]: "\<not> isMoving noKeys q"
  by (simp add: isMoving_def moveSum_def noKeys_def lengthSq_def)

lemma eastWall_after:
  "97 \<le> vec_x (position (afterIntegration flatTerrain 0.016 noKeys identityQuaternion eastWallRig))"
  by (simp add: afterIntegration_def afterGravity_def integrate_def beforeJump_def Let_def
      dampVelocity_def resolveSpawn_def lengthSq_def eastWallRig_def initialRig_def damp_def lerp_def)

text \<open>
  Claim C5. With the standard clamp and a lower bound below the upper one, after every
  update that runs the planar coordinates of the position lie within the bounds, whatever
  the position was before. The clamp changes the position only: it leaves the velocity as
  it is, and the horizontal velocity at the end of the update is the one the integration
  used. A rig that the integration carries to the upper bound of the first coordinate or
  beyond ends the update exactly on that bound.
\<close>

theorem C5_position_clamped:
  assumes "- A + 3 < A - 3"
  shows "- A + 3 \<le> vec_x (position (useFrame th A (Some c) delta k q w))
    \<and> vec_x (position (useFrame th A (Some c) delta k q w)) \<le> A - 3
    \<and> - A + 3 \<le> vec_z (position (useFrame th A (Some c) delta k q w))
    \<and> vec_z (position (useFrame th A (Some c) delta k q w)) \<le> A - 3
    \<and> velocity (clampPosition A w) = velocity w
    \<and> vec_x (velocity (useFrame th A (Some c) delta k q w))
        = vec_x (velocity (afterIntegration th (clampDelta delta) k q w))
    \<and> vec_z (velocity (useFrame th A (Some c) delta k q w))
        = vec_z (velocity (afterIntegration th (clampDelta delta) k q w))
    \<and> (A - 3 \<le> vec_x (position (afterIntegration th (clampDelta delta) k q w)) \<longrightarrow>
         vec_x (position (useFrame th A (Some c) delta k q w)) = A - 3)"
proof -
  have le: "- A + 3 \<le> A - 3"
    using assms by simp
  have x: "- A + 3 \<le> vec_x (position (useFrame th A (Some c) delta k q w))
      \<and> vec_x (position (useFrame th A (Some c) delta k q w)) \<le> A - 3"
    unfolding useFrame_position_x using le by (rule clamp_bounds)
  have z: "- A + 3 \<le> vec_z (position (useFrame th A (Some c) delta k q w))
      \<and> vec_z (position (useFrame th A (Some c) delta k q w)) \<le> A - 3"
    unfolding useFrame_position_z using le by (rule clamp_bounds)
  have d: "A - 3 \<le> vec_x (position (afterIntegration th (clampDelta delta) k q w)) \<longrightarrow>
         vec_x (position (useFrame th A (Some c) delta k q w)) = A - 3"
    unfolding useFrame_position_x using le by (auto simp add: clampToArena_def)
  show ?thesis
    using x z d useFrame_velocity_after [of th A c delta k q w] by simp
qed

theorem C5_position_clamped_witness:
  "- 100 + 3 < (100::real) - 3
   \<and> 100 - 3 \<le> vec_x (position (afterIntegration flatTerrain (clampDelta 0.016) noKeys
        identityQuaternion eastWallRig))
   \<and> vec_x (position (useFrame flatTerrain 100 (Some lockedControls) 0.016 noKeys identityQuaternion
        eastWallRig)) = 100 - 3
   \<and> - 100 + 3 \<le> vec_z (position (useFrame flatTerrain 100 (Some lockedControls) 0.016 noKeys
        identityQuaternion eastWallRig))
   \<and> vec_z (position (useFrame flatTerrain 100 (Some lockedControls) 0.016 noKeys identityQuaternion
        eastWallRig)) \<le> 100 - 3"
proof -
  have h: "- 100 + 3 < (100::real) - 3"
    by simp
  have a: "100 - 3 \<le> vec_x (position (afterIntegration flatTerrain (clampDelta 0.016) noKeys
        identityQuaternion eastWallRig))"
    using eastWall_after by (simp add: clampDelta_def)
  from C5_position_clamped [OF h, of flatTerrain lockedControls "0.016" noKeys identityQuaternion
      eastWallRig] h a
  show ?thesis
    by blast
qed

section \<open>The gravity step\<close>

text \<open>
  Claim C7, as stated: airborne, with no vertical velocity and no jump, an elapsed time of
  one second gives a vertical velocity of \<open>-32\<close> after the gravity step. It fails: the
  elapsed time is clamped to 0.05 seconds before it is used, and the velocity is \<open>-1.6\<close>.
\<close>

theorem C7_one_second_is_clamped:
  "\<not> isGrounded airborneRig \<and> vec_y (velocity airborneRig) = 0 \<and> \<not> jump noKeys
   \<and> vec_y (velocity (afterGravity flatTerrain (clampDelta 1) noKeys identityQuaternion airborneRig))
       \<noteq> - 32"
  by (simp add: afterGravity_def applyGravity_def tryJump_def jumpFires_def gravity_def clampDelta_def)

text \<open>
  Claim C7, amended. Airborne, with no vertical velocity and no jump, the vertical velocity
  after the gravity step is \<open>-32\<close> times the smaller of the elapsed time and 0.05 seconds;
  for an elapsed time of one second it is \<open>-1.6\<close>.
\<close>

theorem C7_gravity_step:
  assumes "\<not> isGrounded w" "vec_y (velocity w) = 0" "\<not> jump k"
  shows "vec_y (velocity (afterGravity th (clampDelta delta) k q w)) = - 32 * min delta 0.05
    \<and> vec_y (velocity (afterGravity th (clampDelta 1) k q w)) = - 1.6"
  using assms
  by (simp add: afterGravity_def applyGravity_def tryJump_def jumpFires_def gravity_def clampDelta_def)

theorem C7_gravity_step_witness:
  "\<not> isGrounded airborneRig \<and> vec_y (velocity airborneRig) = 0 \<and> \<not> jump noKeys
   \<and> vec_y (velocity (afterGravity flatTerrain (clampDelta 1) noKeys identityQuaternion airborneRig))
       = - 1.6"
proof -
  have h: "\<not> isGrounded airborneRig" "vec_y (velocity airborneRig) = 0" "\<not> jump noKeys"
    by simp_all
  from C7_gravity_step [OF h] h show ?thesis
    by blast
qed

section \<open>The jump cooldown\<close>

lemma cooldown_step_bounds:
  assumes "- 0.05 \<le> cooldown w" "cooldown w \<le> 0.35" "0 \<le> delta"
  shows "- 0.05 \<le> cooldown (useFrame th A c delta k q w)
    \<and> cooldown (useFrame th A c delta k q w) \<le> 0.35"
proof (cases c)
  case None
  with assms show ?thesis by (simp add: useFrame_None)
next
  case (Some a)
  from assms show ?thesis
    unfolding Some useFrame_cooldown by (auto simp: min_def clampDelta_def)
qed

lemma runFrames_cooldown:
  assumes "\<forall>f\<in>set fs. 0 \<le> frame_delta f" "- 0.05 \<le> cooldown w" "cooldown w \<le> 0.35"
  shows "- 0.05 \<le> cooldown (runFrames th A w fs) \<and> cooldown (runFrames th A w fs) \<le> 0.35"
  using assms
proof (induction fs arbitrary: w)
  case Nil
  then show ?case by simp
next
  case (Cons f fs)
  have "0 \<le> frame_delta f"
    using Cons.prems(1) by simp
  then have step:
    "- 0.05 \<le> cooldown (useFrame th A (frame_controls f) (frame_delta f) (frame_keys f)
                    (frame_quaternion f) w)
     \<and> cooldown (useFrame th A (frame_controls f) (frame_delta f) (frame_keys f)
                    (frame_quaternion f) w) \<le> 0.35"
    using cooldown_step_bounds Cons.prems(2,3) by blast
  have rest: "\<forall>g\<in>set fs. 0 \<le> frame_delta g"
    using Cons.prems(1) by simp
  show ?case
    using Cons.IH [OF rest] step by simp
qed

lemma runFrames_snoc:
  "runFrames th A w (fs @ [f]) =
     useFrame th A (frame_controls f) (frame_delta f) (frame_keys f) (frame_quaternion f)
       (runFrames th A w fs)"
  by (induction fs arbitrary: w) simp_all

lemma idle_snoc:
  "cooldown (runFrames th A w (fs @ [idleFrame])) =
     (if cooldown (runFrames th A w fs) > 0 then cooldown (runFrames th A w fs) - 0.04
      else cooldown (runFrames th A w fs))"
  unfolding runFrames_snoc
  by (simp add: idleFrame_def useFrame_cooldown jumpFires_beforeJump clampDelta_def)

lemma jump_snoc:
  "cooldown (runFrames th A w (fs @ [jumpFrame])) =
     (if isGrounded (runFrames th A w fs)
         \<and> (if cooldown (runFrames th A w fs) > 0 then cooldown (runFrames th A w fs) - 0.04
              else cooldown (runFrames th A w fs)) \<le> 0
      then 0.35
      else if cooldown (runFrames th A w fs) > 0 then cooldown (runFrames th A w fs) - 0.04
      else cooldown (runFrames th A w fs))"
  unfolding runFrames_snoc
  by (auto simp add: jumpFrame_def useFrame_cooldown jumpFires_beforeJump clampDelta_def)

lemma first_grounded:
  "isGrounded (runFrames flatTerrain 100 initialRig [idleFrame])"
  by (simp add: idleFrame_def useFrame_isGrounded afterIntegration_def afterGravity_def
      integrate_def applyGravity_def tryJump_def jumpFires_def desiredHeight_def flatTerrain_def
      playerHeight_def gravity_def clampDelta_def)

lemma first_cooldown:
  "cooldown (runFrames flatTerrain 100 initialRig [idleFrame]) = 0"
  using idle_snoc [of flatTerrain 100 initialRig "[]"] by simp

text \<open>
  Claim C6, as stated: along every sequence of updates with elapsed times that are not
  negative the cooldown is at least zero after every update, and each update either
  decreases it by the time step or resets it to 0.35. It fails on both counts. The
  decrement is applied whenever the cooldown is positive, with no floor: after a jump,
  nine frames of 0.04 seconds take the cooldown from 0.35 to \<open>-0.01\<close>. And a cooldown
  that is not positive is left as it is: in the first frame of a session it stays 0.
\<close>

theorem C6_cooldown_goes_negative:
  "0 \<le> frame_delta idleFrame \<and> 0 \<le> frame_delta jumpFrame
   \<and> cooldown (runFrames flatTerrain 100 initialRig
        [idleFrame, jumpFrame, idleFrame, idleFrame, idleFrame, idleFrame, idleFrame, idleFrame,
         idleFrame, idleFrame, idleFrame]) < 0
   \<and> cooldown (runFrames flatTerrain 100 initialRig [idleFrame])
        \<noteq> cooldown initialRig - clampDelta (frame_delta idleFrame)
   \<and> cooldown (runFrames flatTerrain 100 initialRig [idleFrame]) \<noteq> 0.35"
proof -
  let ?R = "\<lambda>fs. cooldown (runFrames flatTerrain 100 initialRig fs)"
  have c2: "?R [idleFrame, jumpFrame] = 0.35"
    using jump_snoc [of flatTerrain 100 initialRig "[idleFrame]"] first_grounded first_cooldown
    by (simp del: runFrames.simps)
  have c3: "?R [idleFrame, jumpFrame, idleFrame] = 0.31"
    using idle_snoc [of flatTerrain 100 initialRig "[idleFrame, jumpFrame]"] c2
    by (simp del: runFrames.simps)
  have c4: "?R [idleFrame, jumpFrame, idleFrame, idleFrame] = 0.27"
    using idle_snoc [of flatTerrain 100 initialRig "[idleFrame, jumpFrame, idleFrame]"] c3
    by (simp del: runFrames.simps)
  have c5: "?R [idleFrame, jumpFrame, idleFrame, idleFrame, idleFrame] = 0.23"
    using idle_snoc [of flatTerrain 100 initialRig
        "[idleFrame, jumpFrame, idleFrame, idleFrame]"] c4
    by (simp del: runFrames.simps)
  have c6: "?R [idleFrame, jumpFrame, idleFrame, idleFrame, idleFrame, idleFrame] = 0.19"
    using idle_snoc [of flatTerrain 100 initialRig
        "[idleFrame, jumpFrame, idleFrame, idleFrame, idleFrame]"] c5
    by (simp del: runFrames.simps)
  have c7: "?R [idleFrame, jumpFrame, idleFrame, idleFrame, idleFrame, idleFrame, idleFrame]
      = 0.15"
    using idle_snoc [of flatTerrain 100 initialRig
        "[idleFrame, jumpFrame, idleFrame, idleFrame, idleFrame, idleFrame]"] c6
    by (simp del: runFrames.simps)
  have c8: "?R [idleFrame, jumpFrame, idleFrame, idleFrame, idleFrame, idleFrame, idleFrame,
        idleFrame] = 0.11"
    using idle_snoc [of flatTerrain 100 initialRig
        "[idleFrame, jumpFrame, idleFrame, idleFrame, idleFrame, idleFrame, idleFrame]"] c7
    by (simp del: runFrames.simps)
  have c9: "?R [idleFrame, jumpFrame, idleFrame, idleFrame, idleFrame, idleFrame, idleFrame,
        idleFrame, idleFrame] = 0.07"
    using idle_snoc [of flatTerrain 100 initialRig
        "[idleFrame, jumpFrame, idleFrame, idleFrame, idleFrame, idleFrame, idleFrame,
          idleFrame]"] c8
    by (simp del: runFrames.simps)
  have c10: "?R [idleFrame, jumpFrame, idleFrame, idleFrame, idleFrame, idleFrame, idleFrame,
        idleFrame, idleFrame, idleFrame] = 0.03"
    using idle_snoc [of flatTerrain 100 initialRig
        "[idleFrame, jumpFrame, idleFrame, idleFrame, idleFrame, idleFrame, idleFrame,
          idleFrame, idleFrame]"] c9
    by (simp del: runFrames.simps)
  have c11: "?R [idleFrame, jumpFrame, idleFrame, idleFrame, idleFrame, idleFrame, idleFrame,
        idleFrame, idleFrame, idleFrame, idleFrame] = - 0.01"
    using idle_snoc [of flatTerrain 100 initialRig
        "[idleFrame, jumpFrame, idleFrame, idleFrame, idleFrame, idleFrame, idleFrame,
          idleFrame, idleFrame, idleFrame]"] c10
    by (simp del: runFrames.simps)
  have d: "0 \<le> frame_delta idleFrame" "0 \<le> frame_delta jumpFrame"
    "clampDelta (frame_delta idleFrame) = 0.04"
    by (simp_all add: idleFrame_def jumpFrame_def clampDelta_def)
  show ?thesis
    using c11 first_cooldown d by (simp del: runFrames.simps)
qed

text \<open>
  Claim C6, amended. Along every sequence of updates from the start of a session, with
  elapsed times that are not negative, the cooldown is at least \<open>-0.05\<close> and at most 0.35
  after every update. In an update that runs, the cooldown is reset to 0.35 when the jump
  fires; otherwise it decreases by the clamped time step when it was positive, and is
  unchanged when it was not. The lower bound is not strict: a positive cooldown loses at
  most 0.05, and the program's rounded subtraction can give \<open>-0.05\<close> itself where the
  difference of the reals stays above it.
\<close>

theorem C6_cooldown_range_and_step:
  assumes "\<forall>f\<in>set fs. 0 \<le> frame_delta f"
  shows "- 0.05 \<le> cooldown (runFrames th A initialRig fs)
    \<and> cooldown (runFrames th A initialRig fs) \<le> 0.35
    \<and> cooldown (useFrame th A (Some c) delta k q w) =
        (if jumpFires k (beforeJump th (clampDelta delta) k q w) then 0.35
         else if cooldown w > 0 then cooldown w - clampDelta delta
         else cooldown w)"
  using runFrames_cooldown [OF assms, of initialRig th A] useFrame_cooldown [of th A c delta k q w]
  by simp

theorem C6_cooldown_range_and_step_witness:
  "0 \<le> frame_delta idleFrame \<and> 0 \<le> frame_delta jumpFrame
   \<and> - 0.05 \<le> cooldown (runFrames flatTerrain 100 initialRig [idleFrame, jumpFrame, idleFrame])
   \<and> cooldown (runFrames flatTerrain 100 initialRig [idleFrame, jumpFrame, idleFrame]) \<le> 0.35"
proof -
  have d: "0 \<le> frame_delta idleFrame" "0 \<le> frame_delta jumpFrame"
    by (simp_all add: idleFrame_def jumpFrame_def)
  then have h: "\<forall>f\<in>set [idleFrame, jumpFrame, idleFrame]. 0 \<le> frame_delta f"
    by simp
  from C6_cooldown_range_and_step [OF h] d show ?thesis
    by blast
qed

section \<open>Horizontal velocity\<close>























section \<open>The start of a session\<close>

text \<open>
  Claim C9: at the start of a session, before any integration, the position is a fixed
  spawn coordinate whose vertical component is the terrain height there plus the standing
  eye height, for every terrain. The code creates the position as \<open>(0, 0, 20)\<close> and
  resolves the spawn point \<open>(0, terrainHeight 0 25 + 1.72, 25)\<close> only for a position of
  squared length zero, which the initial position is not: on flat terrain the first frame
  finds the vertical component 0, not 1.72, and the branch that would resolve it does not
  run. The branch does run for a position at the origin.
\<close>

theorem C9_initial_position_not_resolved:
  "position initialRig = \<lparr>vec_x = 0, vec_y = 0, vec_z = 20\<rparr>
   \<and> resolveSpawn flatTerrain initialRig = initialRig
   \<and> vec_y (position initialRig) \<noteq> flatTerrain 0 20 + playerHeight
   \<and> position (resolveSpawn flatTerrain (initialRig\<lparr>position := \<lparr>vec_x = 0, vec_y = 0, vec_z = 0\<rparr>\<rparr>))
       = \<lparr>vec_x = 0, vec_y = flatTerrain 0 25 + playerHeight, vec_z = 25\<rparr>"
  by (simp add: flatTerrain_def playerHeight_def resolveSpawn_def lengthSq_def)

section \<open>Determinism\<close>

lemma kin_resolveSpawn:
  "playerKinematics w1 = playerKinematics w2 \<Longrightarrow>
   playerKinematics (resolveSpawn th w1) = playerKinematics (resolveSpawn th w2)"
  by (simp add: playerKinematics_def resolveSpawn_def)

lemma kin_heading:
  "playerKinematics w1 = playerKinematics w2 \<Longrightarrow>
   playerKinematics (w1\<lparr>heading := q\<rparr>) = playerKinematics (w2\<lparr>heading := q\<rparr>)"
  by (simp add: playerKinematics_def)

lemma kin_dampVelocity:
  "playerKinematics w1 = playerKinematics w2 \<Longrightarrow>
   playerKinematics (dampVelocity dt k q ts w1) = playerKinematics (dampVelocity dt k q ts w2)"
  by (simp add: playerKinematics_def dampVelocity_def Let_def)

lemma kin_updateStamina:
  "playerKinematics w1 = playerKinematics w2 \<Longrightarrow>
   playerKinematics (updateStamina b dt w1) = playerKinematics (updateStamina b dt w2)"
  by (simp add: playerKinematics_def updateStamina_def)

lemma kin_tickCooldown:
  "playerKinematics w1 = playerKinematics w2 \<Longrightarrow>
   playerKinematics (tickCooldown dt w1) = playerKinematics (tickCooldown dt w2)"
  by (simp add: playerKinematics_def tickCooldown_def)

lemma kin_tryJump:
  "playerKinematics w1 = playerKinematics w2 \<Longrightarrow>
   playerKinematics (tryJump k w1) = playerKinematics (tryJump k w2)"
  by (simp add: playerKinematics_def tryJump_def jumpFires_def)

lemma kin_applyGravity:
  "playerKinematics w1 = playerKinematics w2 \<Longrightarrow>
   playerKinematics (applyGravity dt w1) = playerKinematics (applyGravity dt w2)"
  by (simp add: playerKinematics_def applyGravity_def)

lemma kin_integrate:
  "playerKinematics w1 = playerKinematics w2 \<Longrightarrow>
   playerKinematics (integrate dt w1) = playerKinematics (integrate dt w2)"
  by (simp add: playerKinematics_def integrate_def)

lemma kin_clampPosition:
  "playerKinematics w1 = playerKinematics w2 \<Longrightarrow>
   playerKinematics (clampPosition A w1) = playerKinematics (clampPosition A w2)"
  by (simp add: playerKinematics_def clampPosition_def)

lemma kin_resolveGround:
  "playerKinematics w1 = playerKinematics w2 \<Longrightarrow>
   playerKinematics (resolveGround th dt k w1) = playerKinematics (resolveGround th dt k w2)"
  by (simp add: playerKinematics_def resolveGround_def desiredHeight_def)

lemma kin_publish:
  "playerKinematics w1 = playerKinematics w2 \<Longrightarrow>
   playerKinematics (publish th w1) = playerKinematics (publish th w2)"
  by (simp add: playerKinematics_def)

lemma kin_stamina: "playerKinematics w1 = playerKinematics w2 \<Longrightarrow> stamina w1 = stamina w2"
  by (simp add: playerKinematics_def)

lemma kin_beforeJump:
  assumes "playerKinematics w1 = playerKinematics w2"
  shows "playerKinematics (beforeJump th dt k q w1) = playerKinematics (beforeJump th dt k q w2)"
proof -
  have s1: "stamina ((resolveSpawn th w1)\<lparr>heading := q\<rparr>) = stamina w2"
    using kin_stamina [OF assms] by simp
  have s2: "stamina ((resolveSpawn th w2)\<lparr>heading := q\<rparr>) = stamina w2"
    by simp
  show ?thesis
    unfolding beforeJump_def Let_def s1 s2
    by (intro kin_tickCooldown kin_updateStamina kin_dampVelocity kin_heading
        kin_resolveSpawn assms)
qed

lemma kin_useFrame:
  assumes "playerKinematics w1 = playerKinematics w2"
  shows "playerKinematics (useFrame th A (Some c1) delta k q w1)
    = playerKinematics (useFrame th A (Some c2) delta k q w2)"
  unfolding useFrame_Some
  by (intro kin_publish kin_resolveGround kin_clampPosition kin_integrate kin_applyGravity
      kin_tryJump kin_beforeJump assms)

lemma publish_outputs:
  "playerKinematics w1 = playerKinematics w2 \<Longrightarrow>
   camera_position (publish th w1) = camera_position (publish th w2)
   \<and> speed (store (publish th w1)) = speed (store (publish th w2))
   \<and> altitude (store (publish th w1)) = altitude (store (publish th w2))
   \<and> hud_stamina (store (publish th w1)) = hud_stamina (store (publish th w2))"
  by (simp add: playerKinematics_def publish_def setMetrics_def Let_def)

lemma out_useFrame:
  assumes "playerKinematics w1 = playerKinematics w2"
  shows "camera_position (useFrame th A (Some c1) delta k q w1)
      = camera_position (useFrame th A (Some c2) delta k q w2)
   \<and> speed (store (useFrame th A (Some c1) delta k q w1))
      = speed (store (useFrame th A (Some c2) delta k q w2))
   \<and> altitude (store (useFrame th A (Some c1) delta k q w1))
      = altitude (store (useFrame th A (Some c2) delta k q w2))
   \<and> hud_stamina (store (useFrame th A (Some c1) delta k q w1))
      = hud_stamina (store (useFrame th A (Some c2) delta k q w2))"
  unfolding useFrame_Some
  by (intro publish_outputs kin_resolveGround kin_clampPosition kin_integrate kin_applyGravity
      kin_tryJump kin_beforeJump assms)

text \<open>
  Claim C10. Two runs of the update (the controls are mounted in both, whatever the lock
  state) that start from the same position, velocity, stamina, grounded flag and cooldown,
  with the same elapsed time, keys, camera quaternion, terrain function and arena size, end
  with the same position, velocity, stamina, grounded flag and cooldown, the same camera
  position and the same published speed, altitude and stamina. The two starting states may
  differ in everything else: heading, camera position and store.
\<close>

theorem C10_update_deterministic:
  assumes "position w1 = position w2" "velocity w1 = velocity w2" "stamina w1 = stamina w2"
    "isGrounded w1 = isGrounded w2" "cooldown w1 = cooldown w2"
  shows "position (useFrame th A (Some c1) delta k q w1) = position (useFrame th A (Some c2) delta k q w2)
    \<and> velocity (useFrame th A (Some c1) delta k q w1) = velocity (useFrame th A (Some c2) delta k q w2)
    \<and> stamina (useFrame th A (Some c1) delta k q w1) = stamina (useFrame th A (Some c2) delta k q w2)
    \<and> isGrounded (useFrame th A (Some c1) delta k q w1) = isGrounded (useFrame th A (Some c2) delta k q w2)
    \<and> cooldown (useFrame th A (Some c1) delta k q w1) = cooldown (useFrame th A (Some c2) delta k q w2)
    \<and> camera_position (useFrame th A (Some c1) delta k q w1) = camera_position (useFrame th A (Some c2) delta k q w2)
    \<and> speed (store (useFrame th A (Some c1) delta k q w1)) = speed (store (useFrame th A (Some c2) delta k q w2))
    \<and> altitude (store (useFrame th A (Some c1) delta k q w1)) = altitude (store (useFrame th A (Some c2) delta k q w2))
    \<and> hud_stamina (store (useFrame th A (Some c1) delta k q w1)) = hud_stamina (store (useFrame th A (Some c2) delta k q w2))"
proof -
  have e: "playerKinematics w1 = playerKinematics w2"
    using assms by (simp add: playerKinematics_def)
  have "playerKinematics (useFrame th A (Some c1) delta k q w1)
    = playerKinematics (useFrame th A (Some c2) delta k q w2)"
    using e by (rule kin_useFrame)
  then have k: "position (useFrame th A (Some c1) delta k q w1) = position (useFrame th A (Some c2) delta k q w2)
    \<and> velocity (useFrame th A (Some c1) delta k q w1) = velocity (useFrame th A (Some c2) delta k q w2)
    \<and> stamina (useFrame th A (Some c1) delta k q w1) = stamina (useFrame th A (Some c2) delta k q w2)
    \<and> isGrounded (useFrame th A (Some c1) delta k q w1) = isGrounded (useFrame th A (Some c2) delta k q w2)
    \<and> cooldown (useFrame th A (Some c1) delta k q w1) = cooldown (useFrame th A (Some c2) delta k q w2)"
    unfolding playerKinematics_def by (simp only: prod.inject)
  show ?thesis
    using k out_useFrame [OF e, of th A c1 delta k q c2] by blast
qed

theorem C10_update_deterministic_witness:
  "position initialRig = position otherRig \<and> velocity initialRig = velocity otherRig
   \<and> stamina initialRig = stamina otherRig \<and> isGrounded initialRig = isGrounded otherRig
   \<and> cooldown initialRig = cooldown otherRig
   \<and> camera_position initialRig \<noteq> camera_position otherRig
   \<and> position (useFrame flatTerrain 100 (Some lockedControls) 0.016 forwardKeys identityQuaternion
        initialRig)
      = position (useFrame flatTerrain 100 (Some unlockedControls) 0.016 forwardKeys
        identityQuaternion otherRig)
   \<and> camera_position (useFrame flatTerrain 100 (Some lockedControls) 0.016 forwardKeys
        identityQuaternion initialRig)
      = camera_position (useFrame flatTerrain 100 (Some unlockedControls) 0.016 forwardKeys
        identityQuaternion otherRig)
   \<and> speed (store (useFrame flatTerrain 100 (Some lockedControls) 0.016 forwardKeys
        identityQuaternion initialRig))
      = speed (store (useFrame flatTerrain 100 (Some unlockedControls) 0.016 forwardKeys
        identityQuaternion otherRig))"
proof -
  have h: "position initialRig = position otherRig" "velocity initialRig = velocity otherRig"
    "stamina initialRig = stamina otherRig" "isGrounded initialRig = isGrounded otherRig"
    "cooldown initialRig = cooldown otherRig"
    by (simp_all add: otherRig_def)
  have d: "camera_position initialRig \<noteq> camera_position otherRig"
    by (simp add: otherRig_def initialRig_def)
  from C10_update_deterministic [OF h, of flatTerrain 100 lockedControls "0.016" forwardKeys
      identityQuaternion unlockedControls] h d
  show ?thesis
    by blast
qed

end
